theory Spec2Isabelle
  imports Main "HOL-Library.Word" "HOL-Library.Multiset"
begin

unbundle bit_operations_syntax

section \<open>Values of the Vulkan and GLFW bindings that main.go handles\<close>

text \<open>
  main.go is a client of two bindings, \<^verbatim>\<open>vk\<close> (Vulkan) and \<^verbatim>\<open>glfw\<close>. What those
  libraries answer is data here: the record \<open>Runtime\<close> below holds, for every query main.go
  makes, the answer the library gives. Handles are pointers; \<open>nil\<close> is Go's nil.
\<close>

type_synonym uint32 = "32 word"
type_synonym int32 = "32 word"

datatype handle = nil | Ptr nat

datatype Result =
    Success
  | NotReady
  | Timeout
  | Incomplete
  | ErrorOutOfHostMemory
  | ErrorInitializationFailed
  | ErrorLayerNotPresent
  | ErrorExtensionNotPresent
  | ErrorIncompatibleDriver
  | ErrorUnknown int

text \<open>
  Go errors as values: \<^verbatim>\<open>errors.New(msg)\<close>, \<^verbatim>\<open>errors.Wrap(err, msg)\<close>, and the error
  \<^verbatim>\<open>vk.Error\<close> makes of a status. \<^verbatim>\<open>vk.Error\<close> belongs to the Vulkan binding: it
  answers nil for \<^verbatim>\<open>vk.Success\<close> and an error for every other status. \<open>Panic\<close> is a
  run-time panic of the Go program.
\<close>

datatype error =
    VkError Result
  | New string
  | Wrap error string
  | Panic string

definition vk_Error :: "Result \<Rightarrow> error option" where
  "vk_Error r = (if r = Success then None else Some (VkError r))"

datatype PhysicalDeviceType =
    PhysicalDeviceTypeOther
  | PhysicalDeviceTypeIntegratedGpu
  | PhysicalDeviceTypeDiscreteGpu
  | PhysicalDeviceTypeVirtualGpu
  | PhysicalDeviceTypeCpu

record PhysicalDeviceLimits =
  MaxImageDimension2D :: uint32

record PhysicalDeviceProperties =
  DeviceType :: PhysicalDeviceType
  DeviceName :: string
  Limits :: PhysicalDeviceLimits

text \<open>\<open>GeometryShader\<close> holds the truth value that \<^verbatim>\<open>features.GeometryShader.B()\<close> reads.\<close>

record PhysicalDeviceFeatures =
  GeometryShader :: bool

record LayerProperties =
  LayerName :: string
  Description :: string

record ExtensionProperties =
  ExtensionName :: string
  SpecVersion :: uint32

text \<open>
  The two-call enumeration protocol: the first call answers a status and a count, the
  second a status and the items it writes into the caller's buffer.
\<close>

record 'a Enumeration =
  countResult :: Result
  count :: uint32
  fillResult :: Result
  written :: "'a list"

record ApplicationInfo =
  PApplicationName :: string
  ApplicationVersion :: uint32
  PEngineName :: string
  EngineVersion :: uint32
  ApiVersion :: uint32

record InstanceCreateInfo =
  PApplicationInfo :: ApplicationInfo
  EnabledExtensionCount :: uint32
  PpEnabledExtensionNames :: "string list"

record Runtime =
  GetRequiredInstanceExtensions :: "handle \<Rightarrow> string list"
  EnumerateInstanceExtensionProperties :: "ExtensionProperties Enumeration"
  EnumerateInstanceLayerProperties :: "LayerProperties Enumeration"
  CreateInstance :: "InstanceCreateInfo \<Rightarrow> Result \<times> handle"
  EnumeratePhysicalDevices :: "handle \<Rightarrow> handle Enumeration"
  GetPhysicalDeviceProperties :: "handle \<Rightarrow> PhysicalDeviceProperties"
  GetPhysicalDeviceFeatures :: "handle \<Rightarrow> PhysicalDeviceFeatures"

text \<open>
  \<^verbatim>\<open>buf := make([]T, n)\<close> followed by the filling call: the slice keeps its length \<open>n\<close>,
  the library overwrites a prefix of it, and what it does not write stays the zero value.
\<close>

definition make_filled :: "'a \<Rightarrow> nat \<Rightarrow> 'a list \<Rightarrow> 'a list" where
  "make_filled zero n ws = take n ws @ replicate (n - length ws) zero"

section \<open>The application\<close>

definition title :: string where
  "title = ''Learn Vulkan''"

definition enableValidationLayers :: bool where
  "enableValidationLayers = True"

definition validationLayerNames :: "string list" where
  "validationLayerNames = [''VK_LAYER_LUNARG_standard_validation'']"

record HelloTriangleApplication =
  window :: handle
  instance' :: handle
  debug :: handle

section \<open>pickPhysicalDevice\<close>

record deviceScore =
  Device :: handle
  Name :: string
  Score :: uint32

text \<open>The body of the loop over \<^verbatim>\<open>devices\<close>: the score of one device, then its candidate.\<close>

definition score :: "PhysicalDeviceProperties \<Rightarrow> PhysicalDeviceFeatures \<Rightarrow> uint32" where
  "score properties features =
     (let score = 0;
          score = (if DeviceType properties = PhysicalDeviceTypeDiscreteGpu
                   then score + 1000 else score);
          score = score + MaxImageDimension2D (Limits properties);
          score = (if GeometryShader features then 0 else score)
      in score)"

definition candidate :: "Runtime \<Rightarrow> handle \<Rightarrow> deviceScore" where
  "candidate rt d =
     (let properties = GetPhysicalDeviceProperties rt d;
          features = GetPhysicalDeviceFeatures rt d
      in \<lparr>Device = d, Name = DeviceName properties, Score = score properties features\<rparr>)"

definition candidates :: "Runtime \<Rightarrow> handle list \<Rightarrow> deviceScore list" where
  "candidates rt devices = map (candidate rt) devices"

text \<open>The comparator handed to \<^verbatim>\<open>sort.Slice\<close>: \<^verbatim>\<open>a.Score > b.Score\<close>.\<close>

definition byScore :: "deviceScore \<Rightarrow> deviceScore \<Rightarrow> bool" where
  "byScore a b = (Score a > Score b)"

text \<open>
  \<^verbatim>\<open>sort.Slice\<close> belongs to Go's standard library, so \<open>pickPhysicalDevice\<close> takes it as
  its first argument: a function from the comparator and the slice to the slice as the
  sort leaves it. \<^verbatim>\<open>candidates[0]\<close> on an empty slice is an index panic.
\<close>

type_synonym 'a sorter = "('a \<Rightarrow> 'a \<Rightarrow> bool) \<Rightarrow> 'a list \<Rightarrow> 'a list"

definition selectTop :: "deviceScore list \<Rightarrow> error + handle" where
  "selectTop cs =
     (case cs of
        [] \<Rightarrow> Inl (Panic ''index out of range'')
      | chosen # _ \<Rightarrow>
          (if Device chosen = nil then Inl (New ''failed to find suitable GPU'')
           else Inr (Device chosen)))"

text \<open>The slice \<^verbatim>\<open>devices\<close> after the two enumeration calls.\<close>

definition devices :: "Runtime \<Rightarrow> HelloTriangleApplication \<Rightarrow> handle list" where
  "devices rt app =
     (let e = EnumeratePhysicalDevices rt (instance' app) in
      make_filled nil (unat (count e)) (written e))"

definition pickPhysicalDevice ::
  "deviceScore sorter \<Rightarrow> Runtime \<Rightarrow> HelloTriangleApplication \<Rightarrow> error + handle" where
  "pickPhysicalDevice sort_Slice rt app =
     (let e = EnumeratePhysicalDevices rt (instance' app) in
      (case vk_Error (countResult e) of
         Some err \<Rightarrow> Inl (Wrap err ''can't get physical device count'')
       | None \<Rightarrow>
          (case vk_Error (fillResult e) of
             Some err \<Rightarrow> Inl (Wrap err ''can't get physical device count'')
           | None \<Rightarrow>
              (if length (devices rt app) = 0 then Inl (New ''no phyical device detected'')
               else selectTop (sort_Slice byScore (candidates rt (devices rt app)))))))"

text \<open>
  What the documentation of \<^verbatim>\<open>sort.Slice\<close> promises of the slice \<open>ys\<close> it leaves, for the
  slice \<open>xs\<close> it was given: the same elements, and no element ordered before an earlier
  one. It adds: ``The sort is not guaranteed to be stable: equal elements may be reversed
  from their original order.'' \<open>stable_post\<close> is the further promise of
  \<^verbatim>\<open>sort.SliceStable\<close>, which main.go does not call: elements that the comparator does
  not order keep their order.
\<close>

definition sort_Slice_post :: "('a \<Rightarrow> 'a \<Rightarrow> bool) \<Rightarrow> 'a list \<Rightarrow> 'a list \<Rightarrow> bool" where
  "sort_Slice_post Less xs ys =
     (mset ys = mset xs \<and> sorted_wrt (\<lambda>a b. \<not> Less b a) ys)"



text \<open>
  The candidates of the highest score, in enumeration order; the first of them is the
  one a stable sort puts at index 0.
\<close>

definition topScore :: "deviceScore list \<Rightarrow> deviceScore \<Rightarrow> bool" where
  "topScore cs c = list_all (\<lambda>c'. Score c' \<le> Score c) cs"

subsection \<open>The sort of Go's library on short slices\<close>

text \<open>
  Go's package sort, as released from Go 1.8 to Go 1.18: \<^verbatim>\<open>sort.Slice\<close> calls
  \<^verbatim>\<open>quickSort_func(data, 0, length, maxDepth(length))\<close>, whose loop
  \<^verbatim>\<open>for b-a > 12\<close> is not entered on a slice of at most 12 elements; what remains is
  \<^verbatim>\<open>
  if b-a > 1 {
      for i := a + 6; i < b; i++ {
          if data.Less(i, i-6) { data.Swap(i, i-6) }
      }
      insertionSort_func(data, a, b)
  }
  func insertionSort_func(data lessSwap, a, b int) {
      for i := a + 1; i < b; i++ {
          for j := i; j > a && data.Less(j, j-1); j-- { data.Swap(j, j-1) }
      }
  }
  \<close>
  Since Go 1.19 a slice of at most 12 elements is sorted by \<^verbatim>\<open>insertionSortLessFunc\<close>
  alone, which is the same insertion sort.
\<close>

definition Swap :: "'a list \<Rightarrow> nat \<Rightarrow> nat \<Rightarrow> 'a list" where
  "Swap data i j = data[i := data ! j, j := data ! i]"

function insertionSort_inner ::
  "('a \<Rightarrow> 'a \<Rightarrow> bool) \<Rightarrow> 'a list \<Rightarrow> nat \<Rightarrow> nat \<Rightarrow> 'a list" where
  "insertionSort_inner Less data a j =
     (if j > a \<and> Less (data ! j) (data ! (j - 1))
      then insertionSort_inner Less (Swap data j (j - 1)) a (j - 1)
      else data)"
  by pat_completeness auto
termination
  by (relation "measure (\<lambda>(Less, data, a, j). j)") auto

function insertionSort_outer ::
  "('a \<Rightarrow> 'a \<Rightarrow> bool) \<Rightarrow> 'a list \<Rightarrow> nat \<Rightarrow> nat \<Rightarrow> nat \<Rightarrow> 'a list" where
  "insertionSort_outer Less data a i b =
     (if i < b
      then insertionSort_outer Less (insertionSort_inner Less data a i) a (i + 1) b
      else data)"
  by pat_completeness auto
termination
  by (relation "measure (\<lambda>(Less, data, a, i, b). b - i)") auto

definition insertionSort_func ::
  "('a \<Rightarrow> 'a \<Rightarrow> bool) \<Rightarrow> 'a list \<Rightarrow> nat \<Rightarrow> nat \<Rightarrow> 'a list" where
  "insertionSort_func Less data a b = insertionSort_outer Less data a (a + 1) b"

function shellPass ::
  "('a \<Rightarrow> 'a \<Rightarrow> bool) \<Rightarrow> 'a list \<Rightarrow> nat \<Rightarrow> nat \<Rightarrow> 'a list" where
  "shellPass Less data i b =
     (if i < b
      then shellPass Less
             (if Less (data ! i) (data ! (i - 6)) then Swap data i (i - 6) else data)
             (i + 1) b
      else data)"
  by pat_completeness auto
termination
  by (relation "measure (\<lambda>(Less, data, i, b). b - i)") auto

definition quickSort_short :: "'a sorter" where
  "quickSort_short Less data =
     (let a = 0; b = length data in
      if b - a > 1 then insertionSort_func Less (shellPass Less data (a + 6) b) a b
      else data)"


section \<open>checkValidationLayerSupport\<close>

text \<open>
  The inner loop, over \<^verbatim>\<open>availableLayerNames\<close>, leaves \<^verbatim>\<open>found\<close> true at the first
  name equal to \<^verbatim>\<open>vln\<close>; the outer loop, over the package variable
  \<^verbatim>\<open>validationLayerNames\<close>, returns false at the first name not found. The package
  variable is the first argument of the model.
\<close>

fun found :: "string \<Rightarrow> string list \<Rightarrow> bool" where
  "found vln [] = False"
| "found vln (aln # alns) = (if vln = aln then True else found vln alns)"

fun allFound :: "string list \<Rightarrow> string list \<Rightarrow> bool" where
  "allFound [] availableLayerNames = True"
| "allFound (vln # vlns) availableLayerNames =
     (if \<not> found vln availableLayerNames then False
      else allFound vlns availableLayerNames)"

definition availableLayers :: "Runtime \<Rightarrow> LayerProperties list" where
  "availableLayers rt =
     (let e = EnumerateInstanceLayerProperties rt in
      make_filled \<lparr>LayerName = [], Description = []\<rparr> (unat (count e)) (written e))"

definition checkValidationLayerSupport :: "string list \<Rightarrow> Runtime \<Rightarrow> error + bool" where
  "checkValidationLayerSupport layerNames rt =
     (let e = EnumerateInstanceLayerProperties rt in
      (case vk_Error (countResult e) of
         Some err \<Rightarrow> Inl (Wrap err ''can't get layer count'')
       | None \<Rightarrow>
          (case vk_Error (fillResult e) of
             Some err \<Rightarrow> Inl (Wrap err ''can't get layers'')
           | None \<Rightarrow>
              (let availableLayerNames = map LayerName (availableLayers rt) in
               Inr (allFound layerNames availableLayerNames)))))"

section \<open>requiredExtensions and createInstance\<close>

text \<open>
  \<open>ExtDebugReportExtensionName\<close> is \<^verbatim>\<open>VK_EXT_DEBUG_REPORT_EXTENSION_NAME\<close> of the Vulkan
  headers; \<open>MakeVersion\<close> is the binding's \<^verbatim>\<open>major<<22 | minor<<12 | patch\<close>.
\<close>

definition ExtDebugReportExtensionName :: string where
  "ExtDebugReportExtensionName = ''VK_EXT_debug_report''"

definition requiredExtensions :: "Runtime \<Rightarrow> HelloTriangleApplication \<Rightarrow> string list" where
  "requiredExtensions rt app =
     (let requiredExtensions = GetRequiredInstanceExtensions rt (window app) in
      if enableValidationLayers
      then requiredExtensions @ [ExtDebugReportExtensionName @ [CHR 0x00]]
      else requiredExtensions)"

definition MakeVersion :: "uint32 \<Rightarrow> uint32 \<Rightarrow> uint32 \<Rightarrow> uint32" where
  "MakeVersion major minor patch = push_bit 22 major OR push_bit 12 minor OR patch"

definition ApiVersion11 :: uint32 where
  "ApiVersion11 = MakeVersion 1 1 0"

definition appInfo :: ApplicationInfo where
  "appInfo =
     \<lparr>PApplicationName = title,
      ApplicationVersion = MakeVersion 1 0 0,
      PEngineName = ''Ingot'',
      EngineVersion = MakeVersion 1 0 0,
      ApiVersion = ApiVersion11\<rparr>"

definition createInfo :: "Runtime \<Rightarrow> HelloTriangleApplication \<Rightarrow> InstanceCreateInfo" where
  "createInfo rt app =
     (let requiredExtensions = requiredExtensions rt app in
      \<lparr>PApplicationInfo = appInfo,
       EnabledExtensionCount = of_nat (length requiredExtensions),
       PpEnabledExtensionNames = requiredExtensions\<rparr>)"

text \<open>The first block of \<^verbatim>\<open>createInstance\<close>: the error it returns with, if any.\<close>

definition validationCheck :: "Runtime \<Rightarrow> error option" where
  "validationCheck rt =
     (if enableValidationLayers then
        (case checkValidationLayerSupport validationLayerNames rt of
           Inl err \<Rightarrow> Some (Wrap err ''can't check validation layers'')
         | Inr supported \<Rightarrow>
            (if \<not> supported
             then Some (New ''validation layers requested but not available'')
             else None))
      else None)"

text \<open>
  \<^verbatim>\<open>createInstance\<close> returns its error (\<open>None\<close> is Go's nil) and leaves the receiver
  \<^verbatim>\<open>app\<close> in the state returned with it.
\<close>

definition createInstance ::
  "Runtime \<Rightarrow> HelloTriangleApplication \<Rightarrow> error option \<times> HelloTriangleApplication" where
  "createInstance rt app =
     (case validationCheck rt of
        Some err \<Rightarrow> (Some err, app)
      | None \<Rightarrow>
         (let e = EnumerateInstanceExtensionProperties rt in
          (case vk_Error (countResult e) of
             Some err \<Rightarrow> (Some (Wrap err ''can't enumerate instance extensions''), app)
           | None \<Rightarrow>
              (case vk_Error (fillResult e) of
                 Some err \<Rightarrow> (Some (Wrap err ''can't enumerate instance extensions''), app)
               | None \<Rightarrow>
                  (case CreateInstance rt (createInfo rt app) of
                     (result, inst) \<Rightarrow>
                       (case vk_Error result of
                          Some err \<Rightarrow> (Some (Wrap err ''can't create instance''), app)
                        | None \<Rightarrow> (None, app\<lparr>instance' := inst\<rparr>)))))))"

section \<open>debugCallback\<close>

text \<open>
  A call \<^verbatim>\<open>log.Printf(format, args...)\<close> is the value \<open>Printf format args\<close>: the record
  the callback writes. \<open>DebugReportErrorBit\<close> and \<open>DebugReportWarningBit\<close> are the bits
  \<^verbatim>\<open>VK_DEBUG_REPORT_ERROR_BIT_EXT\<close> and \<^verbatim>\<open>VK_DEBUG_REPORT_WARNING_BIT_EXT\<close> of the Vulkan
  headers, \<open>vk_False\<close> is \<^verbatim>\<open>VK_FALSE\<close>.
\<close>

datatype arg = ArgInt int | ArgString string

datatype logRecord = Printf string "arg list"

definition DebugReportWarningBit :: uint32 where
  "DebugReportWarningBit = 0x2"

definition DebugReportErrorBit :: uint32 where
  "DebugReportErrorBit = 0x8"

definition vk_False :: uint32 where
  "vk_False = 0"

definition debugCallback ::
  "uint32 \<Rightarrow> uint32 \<Rightarrow> 64 word \<Rightarrow> 64 word \<Rightarrow> int32 \<Rightarrow> string \<Rightarrow> string \<Rightarrow> handle
     \<Rightarrow> logRecord \<times> uint32" where
  "debugCallback flags objectType object location messageCode pLayerPrefix pMessage pUserData =
     ((if flags AND DebugReportErrorBit \<noteq> 0 then
         Printf ''[ERROR %d] %s on layer %s''
           [ArgInt (sint messageCode), ArgString pMessage, ArgString pLayerPrefix]
       else if flags AND DebugReportWarningBit \<noteq> 0 then
         Printf ''[WARN %d] %s on layer %s''
           [ArgInt (sint messageCode), ArgString pMessage, ArgString pLayerPrefix]
       else
         Printf ''[WARN] unknown debug message %d (layer %s)''
           [ArgInt (sint messageCode), ArgString pLayerPrefix]),
      vk_False)"

section \<open>Concrete hosts\<close>

text \<open>
  \<open>host layers gpus\<close> is a runtime on which every call succeeds, with the validation
  layers \<open>layers\<close> and the physical devices \<open>gpus\<close>, each given by its handle, its type,
  its \<^verbatim>\<open>MaxImageDimension2D\<close> and its geometry-shader flag, in enumeration order.
\<close>

definition enumeration :: "'a list \<Rightarrow> 'a Enumeration" where
  "enumeration ws =
     \<lparr>countResult = Success, count = of_nat (length ws), fillResult = Success, written = ws\<rparr>"

definition host ::
  "string list \<Rightarrow> (handle \<times> PhysicalDeviceType \<times> uint32 \<times> bool) list \<Rightarrow> Runtime" where
  "host layers gpus =
     \<lparr>GetRequiredInstanceExtensions = (\<lambda>w. [''VK_KHR_surface'', ''VK_KHR_xcb_surface'']),
      EnumerateInstanceExtensionProperties =
        enumeration [\<lparr>ExtensionName = ''VK_KHR_surface'', SpecVersion = 25\<rparr>],
      EnumerateInstanceLayerProperties =
        enumeration (map (\<lambda>n. \<lparr>LayerName = n, Description = []\<rparr>) layers),
      CreateInstance = (\<lambda>info. (Success, Ptr 100)),
      EnumeratePhysicalDevices = (\<lambda>inst. enumeration (map fst gpus)),
      GetPhysicalDeviceProperties =
        (\<lambda>d. case map_of gpus d of
               Some (t, m, g) \<Rightarrow>
                 \<lparr>DeviceType = t, DeviceName = ''gpu'', Limits = \<lparr>MaxImageDimension2D = m\<rparr>\<rparr>
             | None \<Rightarrow>
                 \<lparr>DeviceType = PhysicalDeviceTypeOther, DeviceName = [],
                  Limits = \<lparr>MaxImageDimension2D = 0\<rparr>\<rparr>),
      GetPhysicalDeviceFeatures =
        (\<lambda>d. case map_of gpus d of
               Some (t, m, g) \<Rightarrow> \<lparr>GeometryShader = g\<rparr>
             | None \<Rightarrow> \<lparr>GeometryShader = False\<rparr>)\<rparr>"

text \<open>The application before \<^verbatim>\<open>createInstance\<close>, and after it has stored an instance.\<close>

definition fresh :: HelloTriangleApplication where
  "fresh = \<lparr>window = Ptr 1, instance' = nil, debug = nil\<rparr>"

definition app0 :: HelloTriangleApplication where
  "app0 = \<lparr>window = Ptr 1, instance' = Ptr 100, debug = nil\<rparr>"




text \<open>Scenario 2: a single device that reports geometry shaders. Scenario 3: no device.\<close>

definition scenario2 :: Runtime where
  "scenario2 = host [] [(Ptr 1, PhysicalDeviceTypeDiscreteGpu, 16384, True)]"

definition scenario3 :: Runtime where
  "scenario3 = host [] []"

text \<open>A host with the requested validation layer, and one with its name in lower case.\<close>

definition withLayer :: Runtime where
  "withLayer = host [''VK_LAYER_KHRONOS_validation'', ''VK_LAYER_LUNARG_standard_validation''] []"

definition lowerCaseLayer :: Runtime where
  "lowerCaseLayer = host [''vk_layer_lunarg_standard_validation''] []"

text \<open>
  Scenario 4: the requested layer is absent. Two more hosts on which \<^verbatim>\<open>createInstance\<close>
  fails: the second extension query reports an error; instance creation reports one,
  having written a handle all the same.
\<close>

definition scenario4 :: Runtime where
  "scenario4 = host [''VK_LAYER_KHRONOS_validation''] []"

definition extensionQueryFails :: Runtime where
  "extensionQueryFails =
     withLayer\<lparr>EnumerateInstanceExtensionProperties :=
       \<lparr>countResult = Success, count = 1, fillResult = ErrorOutOfHostMemory, written = []\<rparr>\<rparr>"

definition instanceCreationFails :: Runtime where
  "instanceCreationFails =
     withLayer\<lparr>CreateInstance := (\<lambda>info. (ErrorIncompatibleDriver, Ptr 7))\<rparr>"




section \<open>Properties of pickPhysicalDevice\<close>

subsection \<open>Shared facts\<close>

lemma length_make_filled: "length (make_filled z n ws) = n"
  by (simp add: make_filled_def)

lemma pick_proceeds:
  assumes "countResult (EnumeratePhysicalDevices rt (instance' app)) = Success"
    and "fillResult (EnumeratePhysicalDevices rt (instance' app)) = Success"
    and "devices rt app \<noteq> []"
  shows "pickPhysicalDevice S rt app = selectTop (S byScore (candidates rt (devices rt app)))"
  using assms by (simp add: pickPhysicalDevice_def vk_Error_def Let_def)

lemma post_head:
  assumes "sort_Slice_post byScore cs ys" and "cs \<noteq> []"
  obtains c ys' where "ys = c # ys'" and "c \<in> set cs" and "topScore cs c"
proof -
  from assms have m: "mset ys = mset cs" and s: "sorted_wrt (\<lambda>a b. \<not> byScore b a) ys"
    by (simp_all add: sort_Slice_post_def)
  from m have se: "set ys = set cs" by (rule mset_eq_setD)
  with assms(2) have "ys \<noteq> []" by auto
  then obtain c ys' where ys: "ys = c # ys'" by (cases ys) auto
  have "c \<in> set cs" using se ys by auto
  moreover have "topScore cs c"
    unfolding topScore_def list_all_iff
  proof
    fix c' assume "c' \<in> set cs"
    then have "c' = c \<or> c' \<in> set ys'" using se ys by auto
    then show "Score c' \<le> Score c"
      using s ys by (auto simp: byScore_def not_less)
  qed
  ultimately show thesis using ys that by blast
qed


subsection \<open>Which candidate is selected\<close>




subsection \<open>Scenario 1\<close>




subsection \<open>The score\<close>




subsection \<open>Scenario 2 and scenario 3\<close>

text \<open>
  Claim C4. When a single device is enumerated, its geometry-shader flag is true and its
  handle is not nil, its score is 0 and \<^verbatim>\<open>pickPhysicalDevice\<close> returns its handle, not the
  error of an unsuitable device.
\<close>

theorem single_geometry_device_selected:
  assumes "countResult (EnumeratePhysicalDevices rt (instance' app)) = Success"
    and "fillResult (EnumeratePhysicalDevices rt (instance' app)) = Success"
    and ds: "devices rt app = [d]"
    and "GeometryShader (GetPhysicalDeviceFeatures rt d)"
    and "d \<noteq> nil"
    and post: "sort_Slice_post byScore (candidates rt (devices rt app))
           (sort_Slice byScore (candidates rt (devices rt app)))"
  shows "Score (candidate rt d) = 0 \<and> pickPhysicalDevice sort_Slice rt app = Inr d"
proof -
  let ?cs = "candidates rt (devices rt app)"
  have s: "Score (candidate rt d) = 0"
    using assms(4) by (simp add: candidate_def score_def)
  have ne: "devices rt app \<noteq> []" using ds by simp
  have cs: "?cs = [candidate rt d]" using ds by (simp add: candidates_def)
  with post obtain c ys' where ys: "sort_Slice byScore ?cs = c # ys'"
    and mem: "c \<in> set ?cs"
    by (auto elim: post_head)
  then have "Device c = d" using cs by (simp add: candidate_def Let_def)
  moreover have "pickPhysicalDevice sort_Slice rt app = selectTop (c # ys')"
    using pick_proceeds [OF assms(1,2) ne] ys by simp
  ultimately have "pickPhysicalDevice sort_Slice rt app = Inr d"
    using \<open>d \<noteq> nil\<close> by (simp add: selectTop_def)
  with s show ?thesis by simp
qed

theorem single_geometry_device_selected_witness:
  "devices scenario2 app0 = [Ptr 1] \<and>
   GeometryShader (GetPhysicalDeviceFeatures scenario2 (Ptr 1)) \<and>
   Score (candidate scenario2 (Ptr 1)) = 0 \<and>
   pickPhysicalDevice quickSort_short scenario2 app0 = Inr (Ptr 1)"
proof -
  let ?cs = "candidates scenario2 (devices scenario2 app0)"
  have h1: "countResult (EnumeratePhysicalDevices scenario2 (instance' app0)) = Success"
    by code_simp
  have h2: "fillResult (EnumeratePhysicalDevices scenario2 (instance' app0)) = Success"
    by code_simp
  have h3: "devices scenario2 app0 = [Ptr 1]"
    by code_simp
  have h4: "GeometryShader (GetPhysicalDeviceFeatures scenario2 (Ptr 1))"
    by code_simp
  have h5: "Ptr 1 \<noteq> nil" by simp
  have h6: "sort_Slice_post byScore ?cs (quickSort_short byScore ?cs)"
    by code_simp
  from single_geometry_device_selected [where rt = scenario2 and app = app0
      and sort_Slice = quickSort_short, OF h1 h2 h3 h4 h5 h6] h3 h4
  show ?thesis by simp
qed

text \<open>
  Claim C5. When both enumeration calls report success, \<^verbatim>\<open>pickPhysicalDevice\<close> fails
  with the error of no device found exactly when no device is enumerated, that is when
  the count reported is 0; otherwise its result is that of scoring, sorting and selecting
  the first candidate.
\<close>

theorem no_device_found_iff_none_enumerated:
  assumes "countResult (EnumeratePhysicalDevices rt (instance' app)) = Success"
    and "fillResult (EnumeratePhysicalDevices rt (instance' app)) = Success"
  shows "(pickPhysicalDevice sort_Slice rt app = Inl (New ''no phyical device detected'')
            \<longleftrightarrow> devices rt app = []) \<and>
         (devices rt app = [] \<longleftrightarrow> count (EnumeratePhysicalDevices rt (instance' app)) = 0) \<and>
         (devices rt app \<noteq> [] \<longrightarrow>
            pickPhysicalDevice sort_Slice rt app =
              selectTop (sort_Slice byScore (candidates rt (devices rt app))))"
proof -
  have a: "devices rt app = [] \<longleftrightarrow> count (EnumeratePhysicalDevices rt (instance' app)) = 0"
    using length_make_filled [of nil "unat (count (EnumeratePhysicalDevices rt (instance' app)))"
        "written (EnumeratePhysicalDevices rt (instance' app))"]
    by (simp add: devices_def Let_def unat_eq_0 flip: length_0_conv)
  have b: "devices rt app \<noteq> [] \<longrightarrow>
      pickPhysicalDevice sort_Slice rt app =
        selectTop (sort_Slice byScore (candidates rt (devices rt app)))"
    using pick_proceeds [OF assms] by simp
  have c: "devices rt app = [] \<Longrightarrow>
      pickPhysicalDevice sort_Slice rt app = Inl (New ''no phyical device detected'')"
    using assms by (simp add: pickPhysicalDevice_def vk_Error_def Let_def)
  have d: "selectTop ys \<noteq> Inl (New ''no phyical device detected'')" for ys
    by (simp add: selectTop_def split: list.split)
  show ?thesis using a b c d by metis
qed

theorem no_device_found_iff_none_enumerated_witness:
  "devices scenario3 app0 = [] \<and>
   pickPhysicalDevice quickSort_short scenario3 app0 = Inl (New ''no phyical device detected'') \<and>
   devices scenario2 app0 \<noteq> [] \<and>
   pickPhysicalDevice quickSort_short scenario2 app0 \<noteq> Inl (New ''no phyical device detected'')"
proof -
  have h1: "countResult (EnumeratePhysicalDevices scenario3 (instance' app0)) = Success"
    by code_simp
  have h2: "fillResult (EnumeratePhysicalDevices scenario3 (instance' app0)) = Success"
    by code_simp
  have h3: "devices scenario3 app0 = []"
    by code_simp
  have g1: "countResult (EnumeratePhysicalDevices scenario2 (instance' app0)) = Success"
    by code_simp
  have g2: "fillResult (EnumeratePhysicalDevices scenario2 (instance' app0)) = Success"
    by code_simp
  have g3: "devices scenario2 app0 \<noteq> []"
    by code_simp
  from no_device_found_iff_none_enumerated [where rt = scenario3 and app = app0
      and sort_Slice = quickSort_short, OF h1 h2] h3
  have a: "pickPhysicalDevice quickSort_short scenario3 app0 =
      Inl (New ''no phyical device detected'')"
    by blast
  from no_device_found_iff_none_enumerated [where rt = scenario2 and app = app0
      and sort_Slice = quickSort_short, OF g1 g2] g3
  have b: "pickPhysicalDevice quickSort_short scenario2 app0 \<noteq>
      Inl (New ''no phyical device detected'')"
    by blast
  from h3 a g3 b show ?thesis by blast
qed

section \<open>Properties of checkValidationLayerSupport\<close>

lemma found_iff: "found vln alns \<longleftrightarrow> vln \<in> set alns"
  by (induction alns) auto

lemma allFound_iff: "allFound vlns alns \<longleftrightarrow> (\<forall>vln \<in> set vlns. vln \<in> set alns)"
  by (induction vlns) (auto simp: found_iff)

text \<open>
  Claim C6. When both layer queries report success, \<^verbatim>\<open>checkValidationLayerSupport\<close>
  answers true exactly when every requested name is equal, character by character, to
  the name of an available layer; for no requested name it answers true.
\<close>

theorem checkValidationLayerSupport_exact_match:
  assumes "countResult (EnumerateInstanceLayerProperties rt) = Success"
    and "fillResult (EnumerateInstanceLayerProperties rt) = Success"
  shows "checkValidationLayerSupport requested rt =
           Inr (\<forall>name \<in> set requested. name \<in> set (map LayerName (availableLayers rt))) \<and>
         checkValidationLayerSupport [] rt = Inr True"
  using assms
  by (simp add: checkValidationLayerSupport_def vk_Error_def Let_def allFound_iff)

theorem checkValidationLayerSupport_exact_match_witness:
  "map LayerName (availableLayers withLayer) =
     [''VK_LAYER_KHRONOS_validation'', ''VK_LAYER_LUNARG_standard_validation''] \<and>
   checkValidationLayerSupport [''VK_LAYER_LUNARG_standard_validation''] withLayer = Inr True \<and>
   checkValidationLayerSupport [''VK_LAYER_LUNARG_standard''] withLayer = Inr False \<and>
   checkValidationLayerSupport [''VK_LAYER_LUNARG_standard_validation''] lowerCaseLayer
     = Inr False \<and>
   checkValidationLayerSupport [] lowerCaseLayer = Inr True"
proof -
  have h1: "countResult (EnumerateInstanceLayerProperties withLayer) = Success"
    by code_simp
  have h2: "fillResult (EnumerateInstanceLayerProperties withLayer) = Success"
    by code_simp
  have g1: "countResult (EnumerateInstanceLayerProperties lowerCaseLayer) = Success"
    by code_simp
  have g2: "fillResult (EnumerateInstanceLayerProperties lowerCaseLayer) = Success"
    by code_simp
  have n: "map LayerName (availableLayers withLayer) =
     [''VK_LAYER_KHRONOS_validation'', ''VK_LAYER_LUNARG_standard_validation'']"
    by code_simp
  have m: "map LayerName (availableLayers lowerCaseLayer) =
     [''vk_layer_lunarg_standard_validation'']"
    by code_simp
  note w = checkValidationLayerSupport_exact_match [where rt = withLayer, OF h1 h2]
  note l = checkValidationLayerSupport_exact_match [where rt = lowerCaseLayer, OF g1 g2]
  have a: "checkValidationLayerSupport [''VK_LAYER_LUNARG_standard_validation''] withLayer
      = Inr True"
    using w [of "[''VK_LAYER_LUNARG_standard_validation'']"] by (simp add: n)
  have b: "checkValidationLayerSupport [''VK_LAYER_LUNARG_standard''] withLayer = Inr False"
    using w [of "[''VK_LAYER_LUNARG_standard'']"] by (simp add: n)
  have c: "checkValidationLayerSupport [''VK_LAYER_LUNARG_standard_validation''] lowerCaseLayer
      = Inr False"
    using l [of "[''VK_LAYER_LUNARG_standard_validation'']"] by (simp add: m)
  have d: "checkValidationLayerSupport [] lowerCaseLayer = Inr True"
    using l [of "[]"] by simp
  from n a b c d show ?thesis by blast
qed

section \<open>Properties of createInstance and requiredExtensions\<close>

text \<open>
  Claim C7. When \<^verbatim>\<open>createInstance\<close> returns no error, instance creation has reported
  success and the handle it produced is stored in the field \<^verbatim>\<open>instance\<close>, nothing else
  of the application being changed. When it returns an error, the application is
  unchanged, so a field \<^verbatim>\<open>instance\<close> that was nil stays nil. It returns no error exactly
  when the validation layers are available, both extension queries report success and
  instance creation reports success.
\<close>

theorem createInstance_atomic:
  "(fst (createInstance rt app) = None \<longrightarrow>
      fst (CreateInstance rt (createInfo rt app)) = Success \<and>
      snd (createInstance rt app) =
        app\<lparr>instance' := snd (CreateInstance rt (createInfo rt app))\<rparr>) \<and>
   (fst (createInstance rt app) \<noteq> None \<longrightarrow> snd (createInstance rt app) = app) \<and>
   (fst (createInstance rt app) \<noteq> None \<longrightarrow> instance' app = nil \<longrightarrow>
      instance' (snd (createInstance rt app)) = nil) \<and>
   (fst (createInstance rt app) = None \<longleftrightarrow>
      validationCheck rt = None \<and>
      countResult (EnumerateInstanceExtensionProperties rt) = Success \<and>
      fillResult (EnumerateInstanceExtensionProperties rt) = Success \<and>
      fst (CreateInstance rt (createInfo rt app)) = Success)"
  by (auto simp: createInstance_def vk_Error_def Let_def
      split: option.splits prod.splits if_splits)

theorem createInstance_atomic_witness:
  "createInstance withLayer fresh = (None, fresh\<lparr>instance' := Ptr 100\<rparr>) \<and>
   createInstance scenario4 fresh =
     (Some (New ''validation layers requested but not available''), fresh) \<and>
   createInstance extensionQueryFails fresh =
     (Some (Wrap (VkError ErrorOutOfHostMemory) ''can't enumerate instance extensions''), fresh) \<and>
   createInstance instanceCreationFails fresh =
     (Some (Wrap (VkError ErrorIncompatibleDriver) ''can't create instance''), fresh) \<and>
   instance' fresh = nil"
proof -
  have a: "fst (createInstance withLayer fresh) = None" by code_simp
  have b: "fst (createInstance scenario4 fresh) =
      Some (New ''validation layers requested but not available'')" by code_simp
  have c: "fst (createInstance extensionQueryFails fresh) =
      Some (Wrap (VkError ErrorOutOfHostMemory) ''can't enumerate instance extensions'')"
    by code_simp
  have d: "fst (createInstance instanceCreationFails fresh) =
      Some (Wrap (VkError ErrorIncompatibleDriver) ''can't create instance'')"
    by code_simp
  have e: "snd (CreateInstance withLayer (createInfo withLayer fresh)) = Ptr 100"
    by (simp add: withLayer_def host_def)
  have n: "instance' fresh = nil" by (simp add: fresh_def)
  have "snd (createInstance withLayer fresh) = fresh\<lparr>instance' := Ptr 100\<rparr>"
    using createInstance_atomic [of withLayer fresh] a e by simp
  moreover have "snd (createInstance scenario4 fresh) = fresh"
    using createInstance_atomic [of scenario4 fresh] b by simp
  moreover have "snd (createInstance extensionQueryFails fresh) = fresh"
    using createInstance_atomic [of extensionQueryFails fresh] c by simp
  moreover have "snd (createInstance instanceCreationFails fresh) = fresh"
    using createInstance_atomic [of instanceCreationFails fresh] d by simp
  ultimately show ?thesis using a b c d n by (simp add: prod_eq_iff)
qed

text \<open>
  Claim C8. The extension names passed to instance creation are those the window
  requires, in their order, followed, validation layers being enabled, by the name of the
  debug-report extension with its terminating NUL; nothing is removed, so a name the
  window already requires then occurs twice.
\<close>

theorem requiredExtensions_window_then_debug_report:
  "requiredExtensions rt app =
     GetRequiredInstanceExtensions rt (window app) @
       (if enableValidationLayers then [''VK_EXT_debug_report'' @ [CHR 0x00]] else []) \<and>
   enableValidationLayers \<and>
   PpEnabledExtensionNames (createInfo rt app) = requiredExtensions rt app \<and>
   length (requiredExtensions rt app) =
     length (GetRequiredInstanceExtensions rt (window app)) + 1"
  by (simp add: requiredExtensions_def createInfo_def ExtDebugReportExtensionName_def
      enableValidationLayers_def Let_def)

section \<open>Properties of debugCallback\<close>

lemma error_bit: "(flags AND DebugReportErrorBit \<noteq> 0) \<longleftrightarrow> bit flags 3"
  using and_exp_eq_0_iff_not_bit [of flags 3] by (simp add: DebugReportErrorBit_def)

lemma warning_bit: "(flags AND DebugReportWarningBit \<noteq> 0) \<longleftrightarrow> bit flags 1"
  using and_exp_eq_0_iff_not_bit [of flags 1] by (simp add: DebugReportWarningBit_def)

text \<open>
  Claim C9. \<^verbatim>\<open>debugCallback\<close> writes an error record with the message code, the message and
  the layer if the error bit (bit 3) of the flags is set; otherwise a warning record with
  the same three if the warning bit (bit 1) is set; otherwise the record of an unknown
  message; and in every case it returns \<^verbatim>\<open>VK_FALSE\<close>.
\<close>

theorem debugCallback_classification:
  "debugCallback flags objectType object location messageCode pLayerPrefix pMessage pUserData =
     ((if bit flags 3 then
         Printf ''[ERROR %d] %s on layer %s''
           [ArgInt (sint messageCode), ArgString pMessage, ArgString pLayerPrefix]
       else if bit flags 1 then
         Printf ''[WARN %d] %s on layer %s''
           [ArgInt (sint messageCode), ArgString pMessage, ArgString pLayerPrefix]
       else
         Printf ''[WARN] unknown debug message %d (layer %s)''
           [ArgInt (sint messageCode), ArgString pLayerPrefix]),
      0)"
  by (simp add: debugCallback_def error_bit warning_bit vk_False_def)

theorem debugCallback_classification_witness:
  "debugCallback 0x8 0 0 0 7 ''layer'' ''message'' nil =
     (Printf ''[ERROR %d] %s on layer %s'' [ArgInt 7, ArgString ''message'', ArgString ''layer''], 0) \<and>
   debugCallback 0xA 0 0 0 7 ''layer'' ''message'' nil =
     (Printf ''[ERROR %d] %s on layer %s'' [ArgInt 7, ArgString ''message'', ArgString ''layer''], 0) \<and>
   debugCallback 0x2 0 0 0 7 ''layer'' ''message'' nil =
     (Printf ''[WARN %d] %s on layer %s'' [ArgInt 7, ArgString ''message'', ArgString ''layer''], 0) \<and>
   debugCallback 0x1 0 0 0 7 ''layer'' ''message'' nil =
     (Printf ''[WARN] unknown debug message %d (layer %s)'' [ArgInt 7, ArgString ''layer''], 0)"
  using debugCallback_classification [of "0x8" 0 0 0 7 "''layer''" "''message''" nil]
    debugCallback_classification [of "0xA" 0 0 0 7 "''layer''" "''message''" nil]
    debugCallback_classification [of "0x2" 0 0 0 7 "''layer''" "''message''" nil]
    debugCallback_classification [of "0x1" 0 0 0 7 "''layer''" "''message''" nil]
  by (simp add: bit_numeral_simps)

end
